theory Spec2Isabelle
  imports Main "HOL-Library.Sublist"
begin

section \<open>The hello-world sample plugin (samples/hello-world-plugin/hello-world/main.py)\<close>

text \<open>
  The module defines one class, \<open>HelloWorldPlugin\<close>, with a constructor and four methods.
  Each method is embedded as a function from the plugin object and the environment it
  runs in to a \<open>call\<close>: what the method returned (or the exception it raised), the
  plugin object afterwards, and the environment afterwards.
\<close>

subsection \<open>Python values, exceptions and the environment\<close>

text \<open>
  The exceptions the expressions of the module can raise: a failed attribute lookup,
  a failed \<open>os.stat\<close>, and whatever the host's notification operation raises.
\<close>

datatype py_error = AttributeError | OSError | HostError string

text \<open>
  The values stored in the dictionaries the methods return: strings and (unbounded)
  integers. A dictionary with string keys is a map; its key set is \<open>dom\<close>.
\<close>

datatype py_value = PyStr string | PyInt int

type_synonym py_dict = "string \<rightharpoonup> py_value"

type_synonym path = string

text \<open>The keyword arguments of one \<open>show_notification\<close> call.\<close>

record notification =
  title :: string
  message :: string
  type :: string

text \<open>
  The environment: the lines printed to standard output so far, the ambient
  filesystem (for each path that \<open>os.stat\<close> resolves, the \<open>st_size\<close> of its entry), and
  the notification requests that have reached the host's UI so far. Standard output is
  taken to be writable, so \<open>print\<close> itself does not fail.
\<close>

record world =
  stdout :: "string list"
  files :: "path \<rightharpoonup> nat"
  ui_calls :: "notification list"

definition print :: "string \<Rightarrow> world \<Rightarrow> world" where
  "print line w = w\<lparr>stdout := stdout w @ [line]\<rparr>"

text \<open>
  The three library functions of the filesystem collaborator, as the standard library
  defines them: \<open>os.path.exists\<close> is \<open>os.stat\<close> with its failure turned into \<open>False\<close>,
  and \<open>os.path.getsize\<close> is the \<open>st_size\<close> of \<open>os.stat\<close>, whose failure it lets through.
\<close>

definition os_stat :: "world \<Rightarrow> path \<Rightarrow> py_error + nat" where
  "os_stat w p = (case files w p of None \<Rightarrow> Inl OSError | Some st_size \<Rightarrow> Inr st_size)"

definition os_path_exists :: "world \<Rightarrow> path \<Rightarrow> bool" where
  "os_path_exists w p = (case os_stat w p of Inl e \<Rightarrow> False | Inr st \<Rightarrow> True)"

definition os_path_getsize :: "world \<Rightarrow> path \<Rightarrow> py_error + nat" where
  "os_path_getsize w p = os_stat w p"

subsection \<open>The injected API object\<close>

text \<open>
  Modelled from the spec: the classes \<open>Plugin\<close> and \<open>PluginAPI\<close> of \<open>src.plugins.core\<close>
  are not part of the sources. The spec describes the injected API object as
  "optionally exposing a UI capability with a \<open>show_notification(title, message, type)\<close>
  operation". What that operation does is left open: it is a parameter of the UI object,
  giving for each request the exception it raises, if any.
\<close>

record ui_object =
  show_notification :: "notification \<Rightarrow> py_error option"

text \<open>
  The value of the \<open>ui\<close> attribute of an API object, when the attribute exists: either a
  value that is false in a boolean context (such as \<open>None\<close>), or a UI object.
\<close>

datatype ui_value = Falsy | UI ui_object

text \<open>An API object; \<open>ui = None\<close> stands for an object with no attribute \<open>ui\<close>.\<close>

record PluginAPI =
  ui :: "ui_value option"

subsection \<open>The plugin object\<close>

text \<open>The attributes \<open>__init__\<close> assigns; \<open>api = None\<close> is Python's \<open>None\<close>.\<close>

record HelloWorldPlugin =
  name :: string
  version :: string
  api :: "PluginAPI option"

definition init :: HelloWorldPlugin where
  "init = \<lparr>name = ''Hello World Plugin'', version = ''1.0.0'', api = None\<rparr>"

text \<open>The outcome of one method call.\<close>

record 'a call =
  returned :: "py_error + 'a"
  self :: HelloWorldPlugin
  env :: world

text \<open>
  \<open>getattr(self.api, 'ui')\<close>, and \<open>hasattr(self.api, 'ui')\<close>, which is \<open>getattr\<close> with
  the \<open>AttributeError\<close> turned into \<open>False\<close>. \<open>None\<close> has no attribute \<open>ui\<close>.
\<close>

definition getattr_ui :: "PluginAPI option \<Rightarrow> py_error + ui_value" where
  "getattr_ui a =
     (case a of
        None \<Rightarrow> Inl AttributeError
      | Some obj \<Rightarrow> (case ui obj of None \<Rightarrow> Inl AttributeError | Some v \<Rightarrow> Inr v))"

definition hasattr_ui :: "PluginAPI option \<Rightarrow> bool" where
  "hasattr_ui a = (case getattr_ui a of Inl e \<Rightarrow> False | Inr v \<Rightarrow> True)"

definition truthy :: "ui_value \<Rightarrow> bool" where
  "truthy v = (case v of Falsy \<Rightarrow> False | UI u \<Rightarrow> True)"

text \<open>
  \<open>v.show_notification(title=..., message=..., type=...)\<close>: the lookup of the method
  fails on a value that is no UI object; on a UI object the request reaches the host,
  which may raise.
\<close>

definition call_show_notification ::
  "ui_value \<Rightarrow> notification \<Rightarrow> HelloWorldPlugin \<Rightarrow> world \<Rightarrow> unit call" where
  "call_show_notification v n p w =
     (case v of
        Falsy \<Rightarrow> \<lparr>returned = Inl AttributeError, self = p, env = w\<rparr>
      | UI u \<Rightarrow>
          (let w' = w\<lparr>ui_calls := ui_calls w @ [n]\<rparr> in
           case show_notification u n of
             Some e \<Rightarrow> \<lparr>returned = Inl e, self = p, env = w'\<rparr>
           | None \<Rightarrow> \<lparr>returned = Inr (), self = p, env = w'\<rparr>))"

subsection \<open>The methods\<close>

definition welcome_notification :: notification where
  "welcome_notification = \<lparr>title = ''Hello World Plugin'',
                           message = ''Plugin successfully loaded!'',
                           type = ''success''\<rparr>"

definition activate :: "HelloWorldPlugin \<Rightarrow> world \<Rightarrow> unit call" where
  "activate p w =
     (let w1 = print (name p @ '' v'' @ version p @ '' activated!'') w in
      if hasattr_ui (api p) then
        (case getattr_ui (api p) of
           Inl e \<Rightarrow> \<lparr>returned = Inl e, self = p, env = w1\<rparr>
         | Inr v \<Rightarrow>
             if truthy v then
               (case getattr_ui (api p) of
                  Inl e \<Rightarrow> \<lparr>returned = Inl e, self = p, env = w1\<rparr>
                | Inr u \<Rightarrow> call_show_notification u welcome_notification p w1)
             else \<lparr>returned = Inr (), self = p, env = w1\<rparr>)
      else \<lparr>returned = Inr (), self = p, env = w1\<rparr>)"

definition deactivate :: "HelloWorldPlugin \<Rightarrow> world \<Rightarrow> unit call" where
  "deactivate p w =
     \<lparr>returned = Inr (),
      self = p,
      env = print (name p @ '' v'' @ version p @ '' deactivated!'') w\<rparr>"

definition get_metadata :: "HelloWorldPlugin \<Rightarrow> world \<Rightarrow> py_dict call" where
  "get_metadata p w =
     \<lparr>returned = Inr [''name'' \<mapsto> PyStr (name p),
                     ''version'' \<mapsto> PyStr (version p),
                     ''description'' \<mapsto> PyStr ''A simple demonstration plugin'',
                     ''author'' \<mapsto> PyStr ''Smart File Manager Team''],
      self = p,
      env = w\<rparr>"

definition process_file :: "HelloWorldPlugin \<Rightarrow> path \<Rightarrow> world \<Rightarrow> py_dict call" where
  "process_file p file_path w =
     (if \<not> os_path_exists w file_path then
        \<lparr>returned = Inr [''error'' \<mapsto> PyStr ''File not found''], self = p, env = w\<rparr>
      else
        (case os_path_getsize w file_path of
           Inl e \<Rightarrow> \<lparr>returned = Inl e, self = p, env = w\<rparr>
         | Inr file_size \<Rightarrow>
             \<lparr>returned =
                Inr [''message'' \<mapsto> PyStr (''Hello from plugin! Processed file: '' @ file_path),
                     ''file_size'' \<mapsto> PyInt (int file_size),
                     ''processed_at'' \<mapsto> PyStr ''now''],
              self = p,
              env = w\<rparr>))"


subsection \<open>Notions used to state the properties\<close>

text \<open>
  The test \<open>activate\<close> makes before it notifies, \<open>hasattr(self.api, 'ui') and self.api.ui\<close>,
  as a predicate of the \<open>api\<close> field: the attribute exists and its value is true in a
  boolean context. This is what "a UI capability is present" means below; a \<open>None\<close> API
  object, an API object without the attribute and one whose attribute is false all
  count as having no UI capability.
\<close>

definition ui_capability :: "PluginAPI option \<Rightarrow> bool" where
  "ui_capability a = (case getattr_ui a of Inl e \<Rightarrow> False | Inr v \<Rightarrow> truthy v)"

text \<open>The metadata record the specification gives, with its four literal values.\<close>

definition spec_metadata :: py_dict where
  "spec_metadata = [''name'' \<mapsto> PyStr ''Hello World Plugin'',
                    ''version'' \<mapsto> PyStr ''1.0.0'',
                    ''description'' \<mapsto> PyStr ''A simple demonstration plugin'',
                    ''author'' \<mapsto> PyStr ''Smart File Manager Team'']"

text \<open>
  The plugin objects a host can bring about from a fresh one without assigning to
  \<open>name\<close> or \<open>version\<close>: it may inject an API object and call the four methods.
\<close>

inductive reachable :: "HelloWorldPlugin \<Rightarrow> bool" where
  fresh: "reachable init"
| inject: "reachable p \<Longrightarrow> reachable (p\<lparr>api := a\<rparr>)"
| activated: "reachable p \<Longrightarrow> reachable (self (activate p w))"
| deactivated: "reachable p \<Longrightarrow> reachable (self (deactivate p w))"
| queried: "reachable p \<Longrightarrow> reachable (self (get_metadata p w))"
| processed: "reachable p \<Longrightarrow> reachable (self (process_file p file_path w))"

text \<open>Concrete inputs: an environment with one file of 42 bytes, and a renamed plugin.\<close>

definition sample_world :: world where
  "sample_world = \<lparr>stdout = [], files = [''/tmp/a.txt'' \<mapsto> 42], ui_calls = []\<rparr>"

definition renamed_plugin :: HelloWorldPlugin where
  "renamed_plugin = init\<lparr>name := ''Renamed Plugin''\<rparr>"

section \<open>Properties\<close>

subsection \<open>Auxiliary facts\<close>

lemma os_path_exists_iff: "os_path_exists w p \<longleftrightarrow> files w p \<noteq> None"
  by (simp add: os_path_exists_def os_stat_def split: option.splits)

lemma process_file_missing:
  "files w file_path = None \<Longrightarrow>
   process_file p file_path w =
     \<lparr>returned = Inr [''error'' \<mapsto> PyStr ''File not found''], self = p, env = w\<rparr>"
  by (simp add: process_file_def os_path_exists_iff)

lemma process_file_present:
  "files w file_path = Some n \<Longrightarrow>
   process_file p file_path w =
     \<lparr>returned =
        Inr [''message'' \<mapsto> PyStr (''Hello from plugin! Processed file: '' @ file_path),
             ''file_size'' \<mapsto> PyInt (int n),
             ''processed_at'' \<mapsto> PyStr ''now''],
      self = p, env = w\<rparr>"
  by (simp add: process_file_def os_path_exists_iff os_path_getsize_def os_stat_def)

lemma self_activate: "self (activate p w) = p"
  by (simp add: activate_def call_show_notification_def Let_def
      split: sum.splits ui_value.splits option.splits)

lemma activate_without_ui:
  "\<not> ui_capability (api p) \<Longrightarrow>
   activate p w =
     \<lparr>returned = Inr (), self = p,
      env = print (name p @ '' v'' @ version p @ '' activated!'') w\<rparr>"
  by (simp add: activate_def ui_capability_def hasattr_ui_def Let_def split: sum.splits)

lemma activate_with_ui:
  "ui_capability (api p) \<Longrightarrow>
   ui_calls (env (activate p w)) = ui_calls w @ [welcome_notification]"
  by (simp add: activate_def ui_capability_def hasattr_ui_def truthy_def
      call_show_notification_def print_def Let_def
      split: sum.splits ui_value.splits option.splits)

lemma reachable_fields:
  "reachable p \<Longrightarrow> name p = ''Hello World Plugin'' \<and> version p = ''1.0.0''"
proof (induction rule: reachable.induct)
  case fresh
  show ?case by (simp add: init_def)
next
  case (inject p a)
  then show ?case by simp
next
  case (activated p w)
  then show ?case by (simp add: self_activate)
next
  case (deactivated p w)
  then show ?case by (simp add: deactivate_def)
next
  case (queried p w)
  then show ?case by (simp add: get_metadata_def)
next
  case (processed p file_path w)
  then show ?case by (simp add: process_file_def split: sum.splits)
qed


lemma dom_spec_metadata:
  "dom spec_metadata = {''name'', ''version'', ''description'', ''author''}"
  by (auto simp: spec_metadata_def split: if_splits)

subsection \<open>The metadata query\<close>

text \<open>
  C1, as stated: for every plugin state, \<open>get_metadata()\<close> returns the record with the
  four literal values. It fails on a plugin whose \<open>name\<close> attribute has been reassigned:
  the method reads \<open>self.name\<close> and \<open>self.version\<close>, so the renamed plugin reports its
  new name.
\<close>

theorem get_metadata_renamed_counterexample:
  "returned (get_metadata renamed_plugin sample_world) =
     Inr [''name'' \<mapsto> PyStr ''Renamed Plugin'',
          ''version'' \<mapsto> PyStr ''1.0.0'',
          ''description'' \<mapsto> PyStr ''A simple demonstration plugin'',
          ''author'' \<mapsto> PyStr ''Smart File Manager Team'']
   \<and> returned (get_metadata renamed_plugin sample_world) \<noteq> Inr spec_metadata"
proof -
  have "[''name'' \<mapsto> PyStr ''Renamed Plugin'',
         ''version'' \<mapsto> PyStr ''1.0.0'',
         ''description'' \<mapsto> PyStr ''A simple demonstration plugin'',
         ''author'' \<mapsto> PyStr ''Smart File Manager Team''] ''name''
        \<noteq> spec_metadata ''name''"
    by (simp add: spec_metadata_def)
  then have "[''name'' \<mapsto> PyStr ''Renamed Plugin'',
         ''version'' \<mapsto> PyStr ''1.0.0'',
         ''description'' \<mapsto> PyStr ''A simple demonstration plugin'',
         ''author'' \<mapsto> PyStr ''Smart File Manager Team''] \<noteq> spec_metadata"
    by metis
  then show ?thesis
    by (simp add: get_metadata_def renamed_plugin_def init_def)
qed

text \<open>
  C1, amended: for every plugin state whose \<open>name\<close> and \<open>version\<close> attributes hold the
  values the constructor assigned, \<open>get_metadata()\<close> returns a record with exactly the
  four keys name, version, description and author, each holding the literal string of
  the specification. (By \<open>reachable_fields\<close> these are all the states reached from a fresh
  plugin by injecting an API object and calling the four methods.)
\<close>

theorem get_metadata_literal:
  assumes "name p = ''Hello World Plugin''" and "version p = ''1.0.0''"
  shows "returned (get_metadata p w) = Inr spec_metadata
       \<and> dom spec_metadata = {''name'', ''version'', ''description'', ''author''}
       \<and> spec_metadata ''name'' = Some (PyStr ''Hello World Plugin'')
       \<and> spec_metadata ''version'' = Some (PyStr ''1.0.0'')
       \<and> spec_metadata ''description'' = Some (PyStr ''A simple demonstration plugin'')
       \<and> spec_metadata ''author'' = Some (PyStr ''Smart File Manager Team'')"
proof -
  have "returned (get_metadata p w) = Inr spec_metadata"
    using assms by (simp add: get_metadata_def spec_metadata_def)
  moreover have "spec_metadata ''name'' = Some (PyStr ''Hello World Plugin'')"
    and "spec_metadata ''version'' = Some (PyStr ''1.0.0'')"
    and "spec_metadata ''description'' = Some (PyStr ''A simple demonstration plugin'')"
    and "spec_metadata ''author'' = Some (PyStr ''Smart File Manager Team'')"
    by (simp_all add: spec_metadata_def)
  ultimately show ?thesis
    using dom_spec_metadata by simp
qed

theorem get_metadata_literal_witness:
  "name init = ''Hello World Plugin'' \<and> version init = ''1.0.0''
   \<and> returned (get_metadata init sample_world) = Inr spec_metadata"
proof -
  have n: "name init = ''Hello World Plugin''" and v: "version init = ''1.0.0''"
    by (simp_all add: init_def)
  show ?thesis
    using n v get_metadata_literal [OF n v, of sample_world] by simp
qed

text \<open>
  C7: \<open>get_metadata()\<close> is pure. It leaves the plugin object and the environment
  (standard output, filesystem, UI requests) as they were, it returns a dictionary and
  never raises, and a second call right after the first returns an equal dictionary.
\<close>

theorem get_metadata_pure:
  "self (get_metadata p w) = p
   \<and> env (get_metadata p w) = w
   \<and> (\<exists>d. returned (get_metadata p w) = Inr d)
   \<and> returned (get_metadata (self (get_metadata p w)) (env (get_metadata p w)))
       = returned (get_metadata p w)"
  by (simp add: get_metadata_def)

subsection \<open>File processing\<close>


text \<open>
  C3: for every path that exists in the filesystem with byte size \<open>S\<close>,
  \<open>process_file(path)\<close> returns a record whose \<open>file_size\<close> is exactly \<open>S\<close>, whose
  \<open>message\<close> is a string that contains the path, and whose \<open>processed_at\<close> is the
  placeholder string \<open>"now"\<close>.
\<close>

theorem process_file_success:
  assumes "files w file_path = Some S"
  shows "\<exists>d m. returned (process_file p file_path w) = Inr d
           \<and> d ''file_size'' = Some (PyInt (int S))
           \<and> d ''message'' = Some (PyStr m) \<and> sublist file_path m
           \<and> d ''processed_at'' = Some (PyStr ''now'')"
proof -
  have "sublist file_path (''Hello from plugin! Processed file: '' @ file_path)"
    by (rule suffix_imp_sublist) (rule suffixI, rule refl)
  then show ?thesis
    using assms by (simp add: process_file_present)
qed

theorem process_file_success_witness:
  "files sample_world ''/tmp/a.txt'' = Some 42
   \<and> (\<exists>d m. returned (process_file init ''/tmp/a.txt'' sample_world) = Inr d
           \<and> d ''file_size'' = Some (PyInt 42)
           \<and> d ''message'' = Some (PyStr m) \<and> sublist ''/tmp/a.txt'' m
           \<and> d ''processed_at'' = Some (PyStr ''now''))"
proof -
  have f: "files sample_world ''/tmp/a.txt'' = Some 42"
    by (simp add: sample_world_def)
  show ?thesis
    using f process_file_success [OF f, of init] by simp
qed

text \<open>
  C9: for every path, \<open>process_file(path)\<close> leaves the plugin object as it was, with its
  \<open>name\<close>, \<open>version\<close> and \<open>api\<close> attributes, whether the path exists or not.
\<close>

theorem process_file_self_unchanged:
  "self (process_file p file_path w) = p
   \<and> name (self (process_file p file_path w)) = name p
   \<and> version (self (process_file p file_path w)) = version p
   \<and> api (self (process_file p file_path w)) = api p"
  by (simp add: process_file_def split: sum.splits)

text \<open>
  C10: the two results of \<open>process_file\<close> have disjoint key sets. For every path the
  method returns a dictionary; for an existing path its keys are exactly message,
  file_size and processed_at, without the key error, and for a missing path its only
  key is error. So the key error is present exactly when the path is missing.
\<close>

theorem process_file_keys:
  "\<exists>d. returned (process_file p file_path w) = Inr d
      \<and> (if file_path \<in> dom (files w)
          then dom d = {''message'', ''file_size'', ''processed_at''} \<and> ''error'' \<notin> dom d
          else dom d = {''error''})
      \<and> (''error'' \<in> dom d \<longleftrightarrow> file_path \<notin> dom (files w))"
proof (cases "files w file_path")
  case None
  then show ?thesis
    by (simp add: process_file_missing domIff)
next
  case (Some n)
  then have "file_path \<in> dom (files w)"
    by (simp add: domIff)
  moreover have "dom [''message'' \<mapsto> PyStr (''Hello from plugin! Processed file: '' @ file_path),
         ''file_size'' \<mapsto> PyInt (int n),
         ''processed_at'' \<mapsto> PyStr ''now''] = {''message'', ''file_size'', ''processed_at''}"
    by auto
  ultimately show ?thesis
    using Some by (simp add: process_file_present)
qed

subsection \<open>Activation and deactivation\<close>

text \<open>
  C4: for every plugin whose API object has no UI capability, the \<open>api\<close> field still
  being \<open>None\<close> included, \<open>activate()\<close> returns normally: it does not raise.
\<close>

theorem activate_no_ui_no_raise:
  assumes "\<not> ui_capability (api p)"
  shows "returned (activate p w) = Inr ()"
  using assms by (simp add: activate_without_ui)

theorem activate_no_ui_no_raise_witness:
  "\<not> ui_capability (api init)
   \<and> returned (activate init sample_world) = Inr ()
   \<and> \<not> ui_capability (Some \<lparr>ui = None\<rparr>)
   \<and> returned (activate (init\<lparr>api := Some \<lparr>ui = None\<rparr>\<rparr>) sample_world) = Inr ()
   \<and> \<not> ui_capability (Some \<lparr>ui = Some Falsy\<rparr>)
   \<and> returned (activate (init\<lparr>api := Some \<lparr>ui = Some Falsy\<rparr>\<rparr>) sample_world) = Inr ()"
proof -
  have a: "\<not> ui_capability (api init)"
    by (simp add: ui_capability_def getattr_ui_def init_def)
  have b: "\<not> ui_capability (api (init\<lparr>api := Some \<lparr>ui = None\<rparr>\<rparr>))"
    by (simp add: ui_capability_def getattr_ui_def)
  have c: "\<not> ui_capability (api (init\<lparr>api := Some \<lparr>ui = Some Falsy\<rparr>\<rparr>))"
    by (simp add: ui_capability_def getattr_ui_def truthy_def)
  show ?thesis
    using a b c activate_no_ui_no_raise [OF a, of sample_world]
      activate_no_ui_no_raise [OF b, of sample_world]
      activate_no_ui_no_raise [OF c, of sample_world]
    by simp
qed

text \<open>
  C5: \<open>activate()\<close> requests exactly one notification from the UI capability, with
  title "Hello World Plugin", message "Plugin successfully loaded!" and type "success",
  when a UI capability is present on the API object; otherwise it requests none and
  returns normally.
\<close>

theorem activate_notifies_iff_ui:
  "(if ui_capability (api p)
    then ui_calls (env (activate p w)) =
           ui_calls w @ [\<lparr>title = ''Hello World Plugin'',
                          message = ''Plugin successfully loaded!'',
                          type = ''success''\<rparr>]
    else ui_calls (env (activate p w)) = ui_calls w \<and> returned (activate p w) = Inr ())"
proof (cases "ui_capability (api p)")
  case True
  then show ?thesis
    using activate_with_ui [of p w] by (simp add: welcome_notification_def)
next
  case False
  then show ?thesis
    by (simp add: activate_without_ui print_def)
qed

text \<open>
  C8: a freshly constructed plugin has \<open>api = None\<close>, and \<open>activate()\<close> on a plugin whose
  \<open>api\<close> is \<open>None\<close> requests no notification.
\<close>

theorem fresh_plugin_never_notifies:
  "api init = None
   \<and> ui_calls (env (activate init w)) = ui_calls w
   \<and> (api p = None \<longrightarrow> ui_calls (env (activate p w)) = ui_calls w)"
proof -
  have "\<not> ui_capability None"
    by (simp add: ui_capability_def getattr_ui_def)
  then have "api q = None \<Longrightarrow> ui_calls (env (activate q w)) = ui_calls w" for q
    by (simp add: activate_without_ui print_def)
  moreover have "api init = None"
    by (simp add: init_def)
  ultimately show ?thesis by simp
qed

theorem fresh_plugin_never_notifies_witness:
  "api init = None
   \<and> ui_calls (env (activate init sample_world)) = ui_calls sample_world
   \<and> api (self (deactivate init sample_world)) = None
   \<and> ui_calls (env (activate (self (deactivate init sample_world)) sample_world))
       = ui_calls sample_world"
proof -
  have "api (self (deactivate init sample_world)) = None"
    by (simp add: deactivate_def init_def)
  then show ?thesis
    using fresh_plugin_never_notifies [of sample_world "self (deactivate init sample_world)"]
    by simp
qed

text \<open>
  C6: \<open>deactivate()\<close> prints one line and does nothing else. It returns no value and
  does not raise, the plugin object keeps its \<open>name\<close>, \<open>version\<close> and \<open>api\<close>, no
  notification is requested and the filesystem is as before.
\<close>

theorem deactivate_only_logs:
  "returned (deactivate p w) = Inr ()
   \<and> self (deactivate p w) = p
   \<and> name (self (deactivate p w)) = name p
   \<and> version (self (deactivate p w)) = version p
   \<and> api (self (deactivate p w)) = api p
   \<and> stdout (env (deactivate p w)) = stdout w @ [name p @ '' v'' @ version p @ '' deactivated!'']
   \<and> ui_calls (env (deactivate p w)) = ui_calls w
   \<and> files (env (deactivate p w)) = files w"
  by (simp add: deactivate_def print_def)

end
